theory Spec2Isabelle
  imports Main
begin

section \<open>The V4 signed-URL conformance harness (conformance-test/v4SignedUrl.ts)\<close>

text \<open>
  The file under verification is the conformance harness only: it loads a JSON fixture,
  splits it into URL cases and policy cases, and for every URL case builds a
  \<open>getSignedUrl\<close> configuration, calls the signing engine and compares the URL that comes
  back with the expected one. The engine itself (\<open>Storage\<close>, \<open>bucket.getSignedUrl\<close>,
  \<open>file.getSignedUrl\<close>) is imported from \<open>../src/\<close> and is not part of the file.

  Strings are byte strings (UTF-8); \<open>undefined\<close> and an absent property are \<open>None\<close>.
  A time value is an integer number of milliseconds, or \<open>None\<close> for \<open>NaN\<close>. The
  \<open>expiration\<close> of a fixture entry is the integer its number stands for; a fractional
  expiration is outside the model.
\<close>

subsection \<open>Data model\<close>

text \<open>The string enum \<open>UrlStyle\<close>: at run time its members are the strings themselves.\<close>

type_synonym UrlStyle = string

definition PATH_STYLE :: UrlStyle where
  "PATH_STYLE = ''PATH_STYLE''"

definition VIRTUAL_HOSTED_STYLE :: UrlStyle where
  "VIRTUAL_HOSTED_STYLE = ''VIRTUAL_HOSTED_STYLE''"

definition BUCKET_BOUND_HOSTNAME :: UrlStyle where
  "BUCKET_BOUND_HOSTNAME = ''BUCKET_BOUND_HOSTNAME''"

record Conditions =
  contentLengthRange :: "int \<times> int"
  startsWith :: "string \<times> string"
  acl :: string

record PolicyInput =
  pi_scheme :: string
  pi_bucket :: string
  pi_object :: string
  pi_expiration :: int
  pi_timestamp :: string
  pi_conditions :: "Conditions option"
  pi_fields :: "(string \<times> string) list option"

record PolicyOutput =
  po_url :: string
  po_fields :: "(string \<times> string) list"

text \<open>
  An entry of \<open>signingV4Tests\<close>. The source types it \<open>any\<close> and reads it through the two
  interfaces \<open>V4SignedURLTestCase\<close> and \<open>V4SignedPolicyTestCase\<close>; the record carries the
  fields of both, each at the type its interface declares. A property the interface
  marks optional, and the two properties the partition tests for presence, are options.
\<close>

record testCase =
  description :: string
  bucket :: string
  object :: "string option"
  urlStyle :: "UrlStyle option"
  bucketBoundHostname :: "string option"
  scheme :: string
  headers :: "(string \<times> string) list option"
  queryParameters :: "(string \<times> string) list option"
  "method" :: string
  expiration :: int
  timestamp :: string
  expectedUrl :: "string option"
  policyInput :: "PolicyInput option"
  policyOutput :: "PolicyOutput option"

text \<open>
  JavaScript truthiness, for the two shapes the harness tests: an optional string is
  truthy when it is present and not empty, an optional object when it is present.
\<close>

fun truthy_string :: "string option \<Rightarrow> bool" where
  "truthy_string None = False"
| "truthy_string (Some s) = (s \<noteq> [])"

fun truthy_object :: "'a option \<Rightarrow> bool" where
  "truthy_object None = False"
| "truthy_object (Some _) = True"

subsection \<open>The fixture partition (lines 89 to 99)\<close>

text \<open>
  The \<open>for\<close> loop pushes each entry onto \<open>v4SignedUrlCases\<close>, or else onto
  \<open>v4SignedPolicyCases\<close>, or onto neither. The state is the pair of arrays.
\<close>

fun partition_step :: "testCase list \<times> testCase list \<Rightarrow> testCase \<Rightarrow> testCase list \<times> testCase list" where
  "partition_step (us, ps) t =
     (if truthy_string (expectedUrl t) then (us @ [t], ps)
      else if truthy_object (policyInput t) then (us, ps @ [t])
      else (us, ps))"

definition partition_cases :: "testCase list \<Rightarrow> testCase list \<times> testCase list" where
  "partition_cases testCases = foldl partition_step ([], []) testCases"

definition v4SignedUrlCases :: "testCase list \<Rightarrow> testCase list" where
  "v4SignedUrlCases testCases = fst (partition_cases testCases)"

definition v4SignedPolicyCases :: "testCase list \<Rightarrow> testCase list" where
  "v4SignedPolicyCases testCases = snd (partition_cases testCases)"

subsection \<open>Addressing: \<open>domain\<close> and \<open>parseUrlStyle\<close> (lines 118 to 124, 214 to 225)\<close>

record UrlStyleConfig =
  cname :: "string option"
  virtualHostedStyle :: "bool option"

definition parseUrlStyle :: "UrlStyle option \<Rightarrow> string option \<Rightarrow> UrlStyleConfig" where
  "parseUrlStyle style d =
     (if style = Some BUCKET_BOUND_HOSTNAME then \<lparr>cname = d, virtualHostedStyle = None\<rparr>
      else if style = Some VIRTUAL_HOSTED_STYLE then \<lparr>cname = None, virtualHostedStyle = Some True\<rparr>
      else \<lparr>cname = None, virtualHostedStyle = Some False\<rparr>)"

text \<open>
  The mode a result selects, read off it as the claims do: bound hostname is a defined
  \<open>cname\<close>, virtual-hosted style is \<open>virtualHostedStyle\<close> true, path style is
  \<open>virtualHostedStyle\<close> false with no \<open>cname\<close>. \<open>modes_selected\<close> counts how many of the
  three hold.
\<close>

definition bound_hostname_selected :: "UrlStyleConfig \<Rightarrow> bool" where
  "bound_hostname_selected r = (cname r \<noteq> None)"

definition virtual_hosted_selected :: "UrlStyleConfig \<Rightarrow> bool" where
  "virtual_hosted_selected r = (virtualHostedStyle r = Some True)"

definition path_style_selected :: "UrlStyleConfig \<Rightarrow> bool" where
  "path_style_selected r = (virtualHostedStyle r = Some False \<and> cname r = None)"

definition modes_selected :: "UrlStyleConfig \<Rightarrow> nat" where
  "modes_selected r =
     length (filter (\<lambda>b. b)
       [bound_hostname_selected r, virtual_hosted_selected r, path_style_selected r])"

definition domain :: "testCase \<Rightarrow> string option" where
  "domain t =
     (case bucketBoundHostname t of
        None \<Rightarrow> None
      | Some h \<Rightarrow> if truthy_string (Some h) then Some (scheme t @ ''://'' @ h) else None)"

definition urlStyleConfig :: "testCase \<Rightarrow> UrlStyleConfig" where
  "urlStyleConfig t = parseUrlStyle (urlStyle t) (domain t)"

subsection \<open>Verb dispatch and the signing call (lines 115 to 161)\<close>

text \<open>
  The action is read from an object literal by the property name \<open>testCase.method\<close>. A
  property read yields the own property when there is one; otherwise the lookup goes to
  \<open>Object.prototype\<close>, whose members are found under their names; otherwise the result
  is \<open>undefined\<close>.
\<close>

datatype js_value = Undefined | Str string | Inherited string

definition objectPrototypeNames :: "string list" where
  "objectPrototypeNames =
     [''constructor'', ''__defineGetter__'', ''__defineSetter__'', ''hasOwnProperty'',
      ''__lookupGetter__'', ''__lookupSetter__'', ''isPrototypeOf'', ''propertyIsEnumerable'',
      ''toString'', ''valueOf'', ''__proto__'', ''toLocaleString'']"

definition property :: "(string \<times> string) list \<Rightarrow> string \<Rightarrow> js_value" where
  "property obj k =
     (case map_of obj k of
        Some v \<Rightarrow> Str v
      | None \<Rightarrow> if k \<in> set objectPrototypeNames then Inherited k else Undefined)"

definition FileAction :: "(string \<times> string) list" where
  "FileAction =
     [(''GET'', ''read''), (''POST'', ''resumable''), (''PUT'', ''write''), (''DELETE'', ''delete'')]"

definition BucketAction :: "(string \<times> string) list" where
  "BucketAction = [(''GET'', ''list'')]"

text \<open>
  The receiver of \<open>getSignedUrl\<close>: \<open>bucket.file(testCase.object)\<close> or the bucket itself.
\<close>

datatype signing_target = File string string | Bucket string

text \<open>
  Line 116 computes \<open>expires\<close> in double precision. On integers the product and the sum
  are the exact results rounded to the nearest double, ties to the even significand, and
  to an infinity from \<open>2 ^ 1024 - 2 ^ 970\<close> on; \<open>NaN\<close> plus anything is \<open>NaN\<close>.
\<close>

datatype number = Num int | PlusInfinity | MinusInfinity | NaN

function excess_bits :: "int \<Rightarrow> nat" where
  "excess_bits m = (if m < 2 ^ 53 then 0 else Suc (excess_bits (m div 2)))"
  by pat_completeness auto
termination
  by (relation "measure nat") auto

declare excess_bits.simps [simp del]

definition to_double :: "int \<Rightarrow> number" where
  "to_double n =
     (let m = \<bar>n\<bar>;
          e = excess_bits m;
          q = m div 2 ^ e;
          r = m mod 2 ^ e;
          q' = (if 2 ^ e < 2 * r \<or> (2 * r = 2 ^ e \<and> odd q) then q + 1 else q);
          v = q' * 2 ^ e
      in if 2 ^ 1024 \<le> v then (if n < 0 then MinusInfinity else PlusInfinity)
         else Num (if n < 0 then - v else v))"

definition expires_at :: "int option \<Rightarrow> int \<Rightarrow> number" where
  "expires_at NOW seconds =
     (case NOW of
        None \<Rightarrow> NaN
      | Some n \<Rightarrow> (case to_double (seconds * 1000) of Num p \<Rightarrow> to_double (n + p) | x \<Rightarrow> x))"

record SignedUrlConfig = UrlStyleConfig +
  action :: js_value
  extensionHeaders :: "(string \<times> string) list option"
  version :: string
  expires :: number
  queryParams :: "(string \<times> string) list option"

definition signing_call :: "int option \<Rightarrow> testCase \<Rightarrow> signing_target \<times> SignedUrlConfig" where
  "signing_call NOW t =
     (let style = urlStyleConfig t;
          config = (\<lambda>a. \<lparr>cname = cname style, virtualHostedStyle = virtualHostedStyle style,
                          action = a, extensionHeaders = headers t, version = ''v4'',
                          expires = expires_at NOW (expiration t),
                          queryParams = queryParameters t\<rparr>)
      in case object t of
           Some ob \<Rightarrow>
             if truthy_string (Some ob)
             then (File (bucket t) ob, config (property FileAction (method t)))
             else (Bucket (bucket t), config (property BucketAction (method t)))
         | None \<Rightarrow> (Bucket (bucket t), config (property BucketAction (method t))))"

subsection \<open>The clock (lines 112 to 114, 174)\<close>

text \<open>
  The ambient state of a run is what \<open>Date.now()\<close> returns. \<open>sinon.useFakeTimers(NOW)\<close>
  freezes it at \<open>NOW\<close> and hands back the timer that \<open>restore\<close> undoes it with.
\<close>

record clock =
  date_now :: "int option"

definition useFakeTimers :: "int option \<Rightarrow> clock \<Rightarrow> clock \<times> clock" where
  "useFakeTimers NOW c = (c, c\<lparr>date_now := NOW\<rparr>)"


subsection \<open>Comparing the URLs (lines 163 to 172)\<close>

text \<open>
  \<open>new url.URL(s)\<close> is the platform's parser; the harness reads three properties of its
  result. \<open>search\<close> is the serialised query with its leading \<open>?\<close>, or empty.
\<close>

record URL =
  origin :: string
  pathname :: string
  search :: string

text \<open>
  \<open>querystring.parse\<close> with its defaults: the string is cut at every \<open>&\<close>, at most 1000
  pieces are read, an empty piece is skipped, a piece is cut at its first \<open>=\<close>, \<open>+\<close>
  becomes a space and percent escapes are decoded. A key met again collects its values
  in order. Nothing is stripped from the front of the string.

  Decoding a key or a value: an escape \<open>%XX\<close> with two hexadecimal digits becomes the
  byte, any other \<open>%\<close> stays; the bytes are then read as UTF-8, and every maximal
  ill-formed run becomes the replacement character \<open>U+FFFD\<close>. This is what
  \<open>decodeURIComponent\<close> gives where it succeeds and what the fallback
  \<open>unescapeBuffer(s).toString()\<close> gives where it throws, on the ASCII strings that
  \<open>search\<close> holds.
\<close>

fun split_on :: "char \<Rightarrow> string \<Rightarrow> string list" where
  "split_on c [] = [[]]"
| "split_on c (x # xs) =
     (if x = c then [] # split_on c xs
      else case split_on c xs of s # ss \<Rightarrow> (x # s) # ss | [] \<Rightarrow> [[x]])"

definition hex_value :: "char \<Rightarrow> nat option" where
  "hex_value c =
     (let n = (of_char c :: nat) in
      if 48 \<le> n \<and> n \<le> 57 then Some (n - 48)
      else if 65 \<le> n \<and> n \<le> 70 then Some (n - 55)
      else if 97 \<le> n \<and> n \<le> 102 then Some (n - 87)
      else None)"

fun unescape :: "string \<Rightarrow> string" where
  "unescape (c # h # l # rest) =
     (if c = CHR ''%'' then
        (case (hex_value h, hex_value l) of
           (Some a, Some b) \<Rightarrow> char_of (16 * a + b) # unescape rest
         | _ \<Rightarrow> c # unescape (h # l # rest))
      else c # unescape (h # l # rest))"
| "unescape cs = cs"

definition replacement :: string where
  "replacement = [char_of (239 :: nat), char_of (191 :: nat), char_of (189 :: nat)]"

function utf8_decode :: "nat \<Rightarrow> nat \<Rightarrow> nat \<Rightarrow> string \<Rightarrow> string \<Rightarrow> string" where
  "utf8_decode needed lo hi seen [] = (if needed = 0 then [] else replacement)"
| "utf8_decode needed lo hi seen (b # bs) =
     (if needed = 0 then
        (if (of_char b :: nat) < 128 then b # utf8_decode 0 128 191 [] bs
         else if 194 \<le> (of_char b :: nat) \<and> (of_char b :: nat) \<le> 223
           then utf8_decode 1 128 191 [b] bs
         else if 224 \<le> (of_char b :: nat) \<and> (of_char b :: nat) \<le> 239
           then utf8_decode 2 (if (of_char b :: nat) = 224 then 160 else 128)
                  (if (of_char b :: nat) = 237 then 159 else 191) [b] bs
         else if 240 \<le> (of_char b :: nat) \<and> (of_char b :: nat) \<le> 244
           then utf8_decode 3 (if (of_char b :: nat) = 240 then 144 else 128)
                  (if (of_char b :: nat) = 244 then 143 else 191) [b] bs
         else replacement @ utf8_decode 0 128 191 [] bs)
      else if lo \<le> (of_char b :: nat) \<and> (of_char b :: nat) \<le> hi then
        (if needed = 1 then seen @ [b] @ utf8_decode 0 128 191 [] bs
         else utf8_decode (needed - 1) 128 191 (seen @ [b]) bs)
      else replacement @ utf8_decode 0 128 191 [] (b # bs))"
  by pat_completeness auto
termination
  by (relation "measure (\<lambda>(needed, lo, hi, seen, bs). 2 * length bs + (if needed = 0 then 0 else 1))")
    auto

declare utf8_decode.simps [simp del]

definition decodeStr :: "string \<Rightarrow> string" where
  "decodeStr s =
     utf8_decode 0 128 191 []
       (unescape (map (\<lambda>c. if c = CHR ''+'' then CHR '' '' else c) s))"

type_synonym ParsedUrlQuery = "(string \<times> string list) list"

fun addKeyValue :: "ParsedUrlQuery \<Rightarrow> string \<Rightarrow> string \<Rightarrow> ParsedUrlQuery" where
  "addKeyValue [] k v = [(k, [v])]"
| "addKeyValue ((k', vs) # obj) k v =
     (if k' = k then (k', vs @ [v]) # obj else (k', vs) # addKeyValue obj k v)"

definition add_piece :: "ParsedUrlQuery \<Rightarrow> string \<Rightarrow> ParsedUrlQuery" where
  "add_piece obj piece =
     (if piece = [] then obj
      else addKeyValue obj
             (decodeStr (takeWhile (\<lambda>c. c \<noteq> CHR ''='') piece))
             (decodeStr (drop 1 (dropWhile (\<lambda>c. c \<noteq> CHR ''='') piece))))"

definition querystring_parse :: "string \<Rightarrow> ParsedUrlQuery" where
  "querystring_parse qs =
     (if qs = [] then [] else foldl add_piece [] (take 1000 (split_on CHR ''&'' qs)))"

text \<open>
  \<open>assert.deepStrictEqual\<close> on two parsed queries: the same keys with the same values,
  whatever the order of the keys.
\<close>

definition deepStrictEqual :: "ParsedUrlQuery \<Rightarrow> ParsedUrlQuery \<Rightarrow> bool" where
  "deepStrictEqual a b = (set a = set b)"

datatype assertion = OriginEqual | PathnameEqual | QueryEqual

datatype thrown = Rejected string | InvalidURL | AssertionError assertion

datatype outcome = Passed | Threw thrown

text \<open>The three assertions, in order; the first that fails throws and ends the test.\<close>

definition url_assertions :: "URL \<Rightarrow> URL \<Rightarrow> assertion list \<times> outcome" where
  "url_assertions actual expected =
     (if origin actual \<noteq> origin expected
      then ([OriginEqual], Threw (AssertionError OriginEqual))
      else if pathname actual \<noteq> pathname expected
      then ([OriginEqual, PathnameEqual], Threw (AssertionError PathnameEqual))
      else if \<not> deepStrictEqual (querystring_parse (search actual))
                                   (querystring_parse (search expected))
      then ([OriginEqual, PathnameEqual, QueryEqual], Threw (AssertionError QueryEqual))
      else ([OriginEqual, PathnameEqual, QueryEqual], Passed))"

text \<open>
  The comparison as the specification words it: same origin, same pathname, and the
  query strings (the part after the \<open>?\<close>), parsed as mappings, equal.
\<close>

definition query_string :: "URL \<Rightarrow> string" where
  "query_string u = (case search u of [] \<Rightarrow> [] | c # cs \<Rightarrow> if c = CHR ''?'' then cs else c # cs)"

definition structurally_equal :: "URL \<Rightarrow> URL \<Rightarrow> bool" where
  "structurally_equal actual expected =
     (origin actual = origin expected \<and> pathname actual = pathname expected \<and>
      deepStrictEqual (querystring_parse (query_string actual))
                      (querystring_parse (query_string expected)))"

subsection \<open>The body of a URL test (lines 111 to 175)\<close>

text \<open>
  What the file does not define is a parameter: \<open>engine\<close> is \<open>getSignedUrl\<close> on the
  target, as a function of the clock it reads and of its arguments (\<open>Inl\<close> when the
  promise rejects); \<open>dateValue\<close> is \<open>new Date(s).valueOf()\<close>; \<open>parseURL\<close> is
  \<open>new url.URL(s)\<close>, \<open>None\<close> when it throws.
\<close>

type_synonym engine = "int option \<Rightarrow> signing_target \<Rightarrow> SignedUrlConfig \<Rightarrow> string + string"

definition signedUrl :: "engine \<Rightarrow> (string \<Rightarrow> int option) \<Rightarrow> clock \<Rightarrow> testCase \<Rightarrow> string + string" where
  "signedUrl getSignedUrl dateValue c t =
     (let NOW = dateValue (timestamp t);
          (fakeTimer, c1) = useFakeTimers NOW c;
          (target, config) = signing_call NOW t
      in getSignedUrl (date_now c1) target config)"


subsection \<open>The suites (lines 109 to 110, 180 to 212)\<close>

text \<open>
  \<open>it\<close> registers a test; \<open>describe\<close> runs the registered bodies; \<open>describe.skip\<close>
  registers them as pending and runs none. The body of a policy test is empty.
\<close>

record mocha_test =
  title :: string
  body :: "unit \<Rightarrow> assertion list \<times> outcome"

datatype test_result = Pending | Ran "assertion list" outcome

definition it :: "string \<Rightarrow> (unit \<Rightarrow> assertion list \<times> outcome) \<Rightarrow> mocha_test" where
  "it name fn = \<lparr>title = name, body = fn\<rparr>"

definition describe :: "mocha_test list \<Rightarrow> (string \<times> test_result) list" where
  "describe tests = map (\<lambda>T. (title T, case body T () of (chk, out) \<Rightarrow> Ran chk out)) tests"

definition describe_skip :: "mocha_test list \<Rightarrow> (string \<times> test_result) list" where
  "describe_skip tests = map (\<lambda>T. (title T, Pending)) tests"

definition policy_test_body :: "testCase \<Rightarrow> assertion list \<times> outcome" where
  "policy_test_body t = ([], Passed)"

definition policy_tests :: "testCase list \<Rightarrow> mocha_test list" where
  "policy_tests cases = map (\<lambda>t. it (description t) (\<lambda>_. policy_test_body t)) cases"

definition v4_signed_policy :: "testCase list \<Rightarrow> (string \<times> test_result) list" where
  "v4_signed_policy testCases = describe_skip (policy_tests (v4SignedPolicyCases testCases))"

fun assertions_of :: "test_result \<Rightarrow> assertion list" where
  "assertions_of Pending = []"
| "assertions_of (Ran chk _) = chk"

definition assertions_executed :: "(string \<times> test_result) list \<Rightarrow> assertion list" where
  "assertions_executed results = concat (map (\<lambda>r. assertions_of (snd r)) results)"

section \<open>The signing engine, from its specification\<close>

text \<open>
  The engine the harness calls is not in the file. The claims about its own checks are
  settled on the definitions below, which follow the specification (sections 3, 4.3, 4.4
  and 7). What the specification leaves to other components (the canonical encoder, the
  scope builder, the hash functions) is a parameter.
\<close>

datatype error =
    InvalidCredentialError
  | InvalidAddressingError
  | ExpirationRangeError
  | InvalidConditionError
  | QueryParamCollisionError

record SigningCredential =
  issuerId :: string
  privateKey :: string
  clientEmail :: string

record ResourceRef =
  bucketName :: string
  objectPath :: "string option"

text \<open>
  Modelled from the spec: the entity \<open>AddressingMode\<close> of section 3, missing from the
  file. \<open>BoundHostname\<close> carries the host the caller supplied, if any: section 4.3 lets it
  be requested without one.
\<close>

datatype AddressingMode = PathStyle | VirtualHostedStyle | BoundHostname "string option"

datatype SigningAction = ReadAction | WriteAction | DeleteAction | ResumableAction | ListAction

record SigningRequest =
  requestAction :: SigningAction
  expirationSeconds :: int
  referenceTimestamp :: int
  requestHeaders :: "(string \<times> string) list"
  extraQueryParameters :: "(string \<times> string) list"
  addressingMode :: AddressingMode

record ResolvedAddress =
  host :: string
  path :: string

text \<open>
  Modelled from the spec: the Addressing Resolver \<open>resolve\<close> of section 4.3, missing from
  the file. The storage endpoint is a parameter. A bound hostname without a host fails;
  a bucket operation resolves to the path \<open>/\<close> in every mode.
\<close>

definition resolve :: "string \<Rightarrow> ResourceRef \<Rightarrow> AddressingMode \<Rightarrow> error + ResolvedAddress" where
  "resolve endpoint r m =
     (let object_path = (case objectPath r of None \<Rightarrow> ''/'' | Some ob \<Rightarrow> ''/'' @ ob) in
      case m of
        PathStyle \<Rightarrow>
          Inr \<lparr>host = endpoint,
               path = (case objectPath r of
                         None \<Rightarrow> ''/''
                       | Some ob \<Rightarrow> ''/'' @ bucketName r @ ''/'' @ ob)\<rparr>
      | VirtualHostedStyle \<Rightarrow>
          Inr \<lparr>host = bucketName r @ ''.'' @ endpoint, path = object_path\<rparr>
      | BoundHostname None \<Rightarrow> Inl InvalidAddressingError
      | BoundHostname (Some h) \<Rightarrow> Inr \<lparr>host = h, path = object_path\<rparr>)"

text \<open>
  Modelled from the spec: the bound on the expiration of section 4.4 and section 3,
  \<open>(0, 604800]\<close> seconds, missing from the file.
\<close>

definition checkExpiration :: "int \<Rightarrow> error + unit" where
  "checkExpiration seconds =
     (if 0 < seconds \<and> seconds \<le> 604800 then Inr () else Inl ExpirationRangeError)"

text \<open>
  The parts of signing that the specification gives to other components: the scope and
  timestamp strings (4.2), the signed header names (4.1), whether the private key parses
  (4.2), and steps 2 to 7 of section 4.4, which hash and sign.
\<close>

record Primitives =
  credentialScope :: "int \<Rightarrow> string"
  fullTimestamp :: "int \<Rightarrow> string"
  decimal :: "int \<Rightarrow> string"
  signedHeaderNames :: "(string \<times> string) list \<Rightarrow> string"
  keyParses :: "string \<Rightarrow> bool"
  signatureOf :: "SigningCredential \<Rightarrow> ResolvedAddress \<Rightarrow> SigningRequest
                    \<Rightarrow> (string \<times> string) list \<Rightarrow> string"

text \<open>
  Modelled from the spec: step 1 of section 4.4, the mandatory auth query parameters,
  missing from the file.
\<close>

definition authQueryParams ::
  "Primitives \<Rightarrow> SigningCredential \<Rightarrow> ResolvedAddress \<Rightarrow> SigningRequest \<Rightarrow> (string \<times> string) list" where
  "authQueryParams P cred addr req =
     [(''X-Goog-Algorithm'', ''GOOG4-HMAC-SHA256''),
      (''X-Goog-Credential'',
         clientEmail cred @ ''/'' @ credentialScope P (referenceTimestamp req)),
      (''X-Goog-Date'', fullTimestamp P (referenceTimestamp req)),
      (''X-Goog-Expires'', decimal P (expirationSeconds req)),
      (''X-Goog-SignedHeaders'',
         signedHeaderNames P ((''host'', host addr) # requestHeaders req))]"

text \<open>
  Modelled from the spec: the reserved auth parameter names of sections 4.4, 6 and 8,
  missing from the file: the five names of step 1 and \<open>X-Goog-Signature\<close>.
\<close>

definition reservedNames :: "string list" where
  "reservedNames =
     [''X-Goog-Algorithm'', ''X-Goog-Credential'', ''X-Goog-Date'', ''X-Goog-Expires'',
      ''X-Goog-SignedHeaders'', ''X-Goog-Signature'']"

text \<open>
  Modelled from the spec: the merge of step 1 of section 4.4, missing from the file. A
  caller parameter under a reserved name is an error; otherwise the caller's parameters
  follow the auth parameters.
\<close>

definition mergeQueryParams ::
  "(string \<times> string) list \<Rightarrow> (string \<times> string) list \<Rightarrow> error + (string \<times> string) list" where
  "mergeQueryParams auth extra =
     (if list_ex (\<lambda>k. k \<in> set reservedNames \<or> k \<in> set (map fst auth)) (map fst extra)
      then Inl QueryParamCollisionError
      else Inr (auth @ extra))"

text \<open>
  Modelled from the spec: \<open>sign\<close> of section 4.4, missing from the file. The expiration
  is checked before anything else (``before any cryptographic work begins''), the
  collision arises in step 1, the key is parsed when the signing key is derived, and
  only then are the hash and signature computed. The result is the signature and the
  query parameters it covers.
\<close>

definition sign ::
  "Primitives \<Rightarrow> SigningRequest \<Rightarrow> SigningCredential \<Rightarrow> ResolvedAddress
     \<Rightarrow> error + (string \<times> (string \<times> string) list)" where
  "sign P req cred addr =
     (case checkExpiration (expirationSeconds req) of
        Inl e \<Rightarrow> Inl e
      | Inr _ \<Rightarrow>
          (case mergeQueryParams (authQueryParams P cred addr req) (extraQueryParameters req) of
             Inl e \<Rightarrow> Inl e
           | Inr params \<Rightarrow>
               if keyParses P (privateKey cred)
               then Inr (signatureOf P cred addr req params, params)
               else Inl InvalidCredentialError))"

text \<open>
  Modelled from the spec: the data flow of section 2, missing from the file: the
  resolver feeds the signature builder.
\<close>

definition signResource ::
  "Primitives \<Rightarrow> string \<Rightarrow> SigningCredential \<Rightarrow> ResourceRef \<Rightarrow> SigningRequest
     \<Rightarrow> error + (string \<times> (string \<times> string) list)" where
  "signResource P endpoint cred r req =
     (case resolve endpoint r (addressingMode req) of
        Inl e \<Rightarrow> Inl e
      | Inr addr \<Rightarrow> sign P req cred addr)"

text \<open>
  Modelled from the spec: the purity of signing of section 5, missing from the file.
  The operation runs in an ambient state, the wall clock and a source of randomness. It
  is ``a pure, synchronous, side-effect-free computation over immutable inputs'' whose
  timestamps ``are supplied explicitly rather than sampled internally'': it reads neither
  component, signs at the timestamp of the request, and leaves the state as it found it.
\<close>

record ambient =
  wall_clock :: "int option"
  entropy :: "nat list"


section \<open>Sample inputs\<close>

text \<open>
  The end-to-end example of the specification as a fixture entry, a policy input, and a
  signing request with stand-ins for the primitives; the theorems below are instantiated
  at these and at variants of them.
\<close>

definition sample_policy_input :: PolicyInput where
  "sample_policy_input =
     \<lparr>pi_scheme = ''https'', pi_bucket = ''validation-bucket'', pi_object = ''test.txt'',
      pi_expiration = 600, pi_timestamp = ''2020-01-01T00:00:00Z'',
      pi_conditions = None, pi_fields = None\<rparr>"

definition sample_case :: testCase where
  "sample_case =
     \<lparr>description = ''Simple GET'', bucket = ''validation-bucket'', object = Some ''test.txt'',
      urlStyle = Some ''PATH_STYLE'', bucketBoundHostname = None, scheme = ''https'',
      headers = None, queryParameters = None, method = ''GET'', expiration = 600,
      timestamp = ''2020-01-01T00:00:00Z'',
      expectedUrl = Some ''https://storage.googleapis.com/validation-bucket/test.txt?a=1&b=2'',
      policyInput = None, policyOutput = None\<rparr>"

definition sample_primitives :: Primitives where
  "sample_primitives =
     \<lparr>credentialScope = (\<lambda>_. ''20200101/auto/storage/goog4_request''),
      fullTimestamp = (\<lambda>_. ''20200101T000000Z''),
      decimal = (\<lambda>_. ''600''),
      signedHeaderNames = (\<lambda>hs. ''host''),
      keyParses = (\<lambda>k. k \<noteq> []),
      signatureOf = (\<lambda>_ _ _ _. ''00'')\<rparr>"

definition sample_credential :: SigningCredential where
  "sample_credential =
     \<lparr>issuerId = ''issuer'', privateKey = ''key'', clientEmail = ''test@example.com''\<rparr>"

definition sample_request :: SigningRequest where
  "sample_request =
     \<lparr>requestAction = ReadAction, expirationSeconds = 600, referenceTimestamp = 1577836800,
      requestHeaders = [], extraQueryParameters = [(''generation'', ''5'')],
      addressingMode = PathStyle\<rparr>"

definition sample_address :: ResolvedAddress where
  "sample_address = \<lparr>host = ''storage.googleapis.com'', path = ''/validation-bucket/test.txt''\<rparr>"

definition sample_resource :: ResourceRef where
  "sample_resource = \<lparr>bucketName = ''validation-bucket'', objectPath = Some ''test.txt''\<rparr>"

section \<open>Properties of the harness\<close>

subsection \<open>The partition\<close>

lemma foldl_partition_step:
  "foldl partition_step (us, ps) ts =
     (us @ filter (\<lambda>t. truthy_string (expectedUrl t)) ts,
      ps @ filter (\<lambda>t. \<not> truthy_string (expectedUrl t) \<and> truthy_object (policyInput t)) ts)"
  by (induction ts arbitrary: us ps) simp_all

lemma v4SignedUrlCases_filter:
  "v4SignedUrlCases ts = filter (\<lambda>t. truthy_string (expectedUrl t)) ts"
  by (simp add: v4SignedUrlCases_def partition_cases_def foldl_partition_step)

lemma v4SignedPolicyCases_filter:
  "v4SignedPolicyCases ts =
     filter (\<lambda>t. \<not> truthy_string (expectedUrl t) \<and> truthy_object (policyInput t)) ts"
  by (simp add: v4SignedPolicyCases_def partition_cases_def foldl_partition_step)

lemma signing_call_config:
  "cname (snd (signing_call NOW t)) = cname (urlStyleConfig t)"
  "virtualHostedStyle (snd (signing_call NOW t)) = virtualHostedStyle (urlStyleConfig t)"
  "expires (snd (signing_call NOW t)) = expires_at NOW (expiration t)"
  "queryParams (snd (signing_call NOW t)) = queryParameters t"
  by (simp_all add: signing_call_def Let_def split: option.splits)

text \<open>
  The sum of line 116 is exact below \<open>2 ^ 53\<close> and rounded to the nearest double above.
\<close>

lemma expires_at_examples:
  "expires_at (Some 1577836800000) 600 = Num 1577837400000 \<and>
   expires_at (Some 1) 9008777091540 = Num 9008777091540000 \<and>
   expires_at None 600 = NaN"
  by code_simp

lemma signing_call_action:
  "action (snd (signing_call NOW t)) =
     (if truthy_string (object t) then property FileAction (method t)
      else property BucketAction (method t))"
  by (simp add: signing_call_def Let_def split: option.splits)

text \<open>
  Claim C10. The partition of the fixture: the URL cases are exactly the entries with a
  truthy \<open>expectedUrl\<close>, in order; the policy cases are exactly the entries without one
  and with a truthy \<open>policyInput\<close>, in order. So an entry with both is a URL case only, an
  entry with neither is in no list, and no entry is in both lists.
\<close>

theorem fixture_partition:
  "v4SignedUrlCases ts = filter (\<lambda>t. truthy_string (expectedUrl t)) ts \<and>
   v4SignedPolicyCases ts =
     filter (\<lambda>t. \<not> truthy_string (expectedUrl t) \<and> truthy_object (policyInput t)) ts \<and>
   set (v4SignedUrlCases ts) \<inter> set (v4SignedPolicyCases ts) = {} \<and>
   (\<forall>t \<in> set ts.
      (truthy_string (expectedUrl t) \<longrightarrow>
         t \<in> set (v4SignedUrlCases ts) \<and> t \<notin> set (v4SignedPolicyCases ts)) \<and>
      (\<not> truthy_string (expectedUrl t) \<and> truthy_object (policyInput t) \<longrightarrow>
         t \<in> set (v4SignedPolicyCases ts) \<and> t \<notin> set (v4SignedUrlCases ts)) \<and>
      (\<not> truthy_string (expectedUrl t) \<and> \<not> truthy_object (policyInput t) \<longrightarrow>
         t \<notin> set (v4SignedUrlCases ts) \<and> t \<notin> set (v4SignedPolicyCases ts)))"
  unfolding v4SignedUrlCases_filter v4SignedPolicyCases_filter by auto

text \<open>
  At a fixture of four entries (a URL case, a policy case, an entry with both, an entry
  whose \<open>expectedUrl\<close> is the empty string and which has no \<open>policyInput\<close>): the first and
  third are URL cases, the second is the only policy case, the fourth is dropped.
\<close>

theorem fixture_partition_witness:
  "v4SignedUrlCases
     [sample_case,
      sample_case\<lparr>expectedUrl := None, policyInput := Some sample_policy_input\<rparr>,
      sample_case\<lparr>policyInput := Some sample_policy_input\<rparr>,
      sample_case\<lparr>expectedUrl := Some []\<rparr>]
    = [sample_case, sample_case\<lparr>policyInput := Some sample_policy_input\<rparr>] \<and>
   v4SignedPolicyCases
     [sample_case,
      sample_case\<lparr>expectedUrl := None, policyInput := Some sample_policy_input\<rparr>,
      sample_case\<lparr>policyInput := Some sample_policy_input\<rparr>,
      sample_case\<lparr>expectedUrl := Some []\<rparr>]
    = [sample_case\<lparr>expectedUrl := None, policyInput := Some sample_policy_input\<rparr>]"
  using fixture_partition [of "[sample_case,
      sample_case\<lparr>expectedUrl := None, policyInput := Some sample_policy_input\<rparr>,
      sample_case\<lparr>policyInput := Some sample_policy_input\<rparr>,
      sample_case\<lparr>expectedUrl := Some []\<rparr>]"]
  by (simp add: sample_case_def)

subsection \<open>Addressing\<close>

text \<open>
  Claim C5, as stated, fails: \<open>BUCKET_BOUND_HOSTNAME\<close> without a domain returns
  \<open>{cname: undefined}\<close>, a result with no \<open>cname\<close> and no \<open>virtualHostedStyle\<close>. It
  selects none of the three modes, so not exactly one.
\<close>

theorem parseUrlStyle_no_mode_counterexample:
  "parseUrlStyle (Some ''BUCKET_BOUND_HOSTNAME'') None
     = \<lparr>cname = None, virtualHostedStyle = None\<rparr> \<and>
   modes_selected (parseUrlStyle (Some ''BUCKET_BOUND_HOSTNAME'') None) = 0"
  by (simp add: parseUrlStyle_def BUCKET_BOUND_HOSTNAME_def modes_selected_def
      bound_hostname_selected_def virtual_hosted_selected_def path_style_selected_def)

text \<open>
  Claim C5, amended. \<open>BUCKET_BOUND_HOSTNAME\<close> gives the domain as \<open>cname\<close> and no
  \<open>virtualHostedStyle\<close>; \<open>VIRTUAL_HOSTED_STYLE\<close> gives \<open>virtualHostedStyle\<close> true and no
  \<open>cname\<close>; every other style, an absent one included, gives \<open>virtualHostedStyle\<close> false
  and no \<open>cname\<close>. No result is both bound-hostname and virtual-hosted. Exactly one mode
  is selected for every input but one: \<open>BUCKET_BOUND_HOSTNAME\<close> without a domain selects
  none. Each mode is selected exactly by its style (bound hostname: with a domain).
\<close>

theorem parseUrlStyle_modes:
  "(style = Some BUCKET_BOUND_HOSTNAME \<longrightarrow>
      parseUrlStyle style d = \<lparr>cname = d, virtualHostedStyle = None\<rparr>) \<and>
   (style = Some VIRTUAL_HOSTED_STYLE \<longrightarrow>
      parseUrlStyle style d = \<lparr>cname = None, virtualHostedStyle = Some True\<rparr>) \<and>
   (style \<noteq> Some BUCKET_BOUND_HOSTNAME \<and> style \<noteq> Some VIRTUAL_HOSTED_STYLE \<longrightarrow>
      parseUrlStyle style d = \<lparr>cname = None, virtualHostedStyle = Some False\<rparr>) \<and>
   \<not> (bound_hostname_selected (parseUrlStyle style d) \<and>
       virtual_hosted_selected (parseUrlStyle style d)) \<and>
   modes_selected (parseUrlStyle style d)
     = (if style = Some BUCKET_BOUND_HOSTNAME \<and> d = None then 0 else 1) \<and>
   (bound_hostname_selected (parseUrlStyle style d) \<longleftrightarrow>
      style = Some BUCKET_BOUND_HOSTNAME \<and> d \<noteq> None) \<and>
   (virtual_hosted_selected (parseUrlStyle style d) \<longleftrightarrow> style = Some VIRTUAL_HOSTED_STYLE) \<and>
   (path_style_selected (parseUrlStyle style d) \<longleftrightarrow>
      style \<noteq> Some BUCKET_BOUND_HOSTNAME \<and> style \<noteq> Some VIRTUAL_HOSTED_STYLE)"
proof -
  have ne: "BUCKET_BOUND_HOSTNAME \<noteq> VIRTUAL_HOSTED_STYLE"
    by (simp add: BUCKET_BOUND_HOSTNAME_def VIRTUAL_HOSTED_STYLE_def)
  consider (bound) "style = Some BUCKET_BOUND_HOSTNAME"
    | (virtual) "style = Some VIRTUAL_HOSTED_STYLE"
    | (other) "style \<noteq> Some BUCKET_BOUND_HOSTNAME" "style \<noteq> Some VIRTUAL_HOSTED_STYLE"
    by blast
  then show ?thesis
  proof cases
    case bound
    with ne show ?thesis
      by (cases d) (simp_all add: parseUrlStyle_def modes_selected_def
          bound_hostname_selected_def virtual_hosted_selected_def path_style_selected_def)
  next
    case virtual
    with ne show ?thesis
      by (simp add: parseUrlStyle_def modes_selected_def
          bound_hostname_selected_def virtual_hosted_selected_def path_style_selected_def)
  next
    case other
    then show ?thesis
      by (simp add: parseUrlStyle_def modes_selected_def
          bound_hostname_selected_def virtual_hosted_selected_def path_style_selected_def)
  qed
qed

theorem parseUrlStyle_modes_witness:
  "parseUrlStyle (Some ''BUCKET_BOUND_HOSTNAME'') (Some ''https://mydomain.tld'')
     = \<lparr>cname = Some ''https://mydomain.tld'', virtualHostedStyle = None\<rparr> \<and>
   modes_selected (parseUrlStyle (Some ''BUCKET_BOUND_HOSTNAME'') (Some ''https://mydomain.tld'')) = 1 \<and>
   parseUrlStyle (Some ''BUCKET_BOUND_HOSTNAME'') None
     = \<lparr>cname = None, virtualHostedStyle = None\<rparr> \<and>
   parseUrlStyle (Some ''VIRTUAL_HOSTED_STYLE'') (Some ''https://mydomain.tld'')
     = \<lparr>cname = None, virtualHostedStyle = Some True\<rparr> \<and>
   modes_selected (parseUrlStyle (Some ''VIRTUAL_HOSTED_STYLE'') (Some ''https://mydomain.tld'')) = 1 \<and>
   parseUrlStyle (Some ''PATH_STYLE'') (Some ''https://mydomain.tld'')
     = \<lparr>cname = None, virtualHostedStyle = Some False\<rparr> \<and>
   modes_selected (parseUrlStyle (Some ''PATH_STYLE'') (Some ''https://mydomain.tld'')) = 1 \<and>
   parseUrlStyle None None = \<lparr>cname = None, virtualHostedStyle = Some False\<rparr> \<and>
   modes_selected (parseUrlStyle None None) = 1"
  using parseUrlStyle_modes [of "Some ''BUCKET_BOUND_HOSTNAME''" "Some ''https://mydomain.tld''"]
    parseUrlStyle_modes [of "Some ''BUCKET_BOUND_HOSTNAME''" None]
    parseUrlStyle_modes [of "Some ''VIRTUAL_HOSTED_STYLE''" "Some ''https://mydomain.tld''"]
    parseUrlStyle_modes [of "Some ''PATH_STYLE''" "Some ''https://mydomain.tld''"]
    parseUrlStyle_modes [of None None]
  by (simp add: BUCKET_BOUND_HOSTNAME_def VIRTUAL_HOSTED_STYLE_def modes_selected_def
      bound_hostname_selected_def virtual_hosted_selected_def path_style_selected_def)

text \<open>
  Claim C6, as stated, fails: the \<open>cname\<close> reaches the engine only through the
  \<open>BUCKET_BOUND_HOSTNAME\<close> branch of \<open>parseUrlStyle\<close>. A path-style case that carries a
  \<open>bucketBoundHostname\<close> passes no \<open>cname\<close>.
\<close>

theorem cname_needs_bound_style_counterexample:
  "bucketBoundHostname (sample_case\<lparr>bucketBoundHostname := Some ''mydomain.tld''\<rparr>)
     = Some ''mydomain.tld'' \<and>
   cname (snd (signing_call (Some 1577836800)
                 (sample_case\<lparr>bucketBoundHostname := Some ''mydomain.tld''\<rparr>))) = None"
  by (simp add: signing_call_config urlStyleConfig_def parseUrlStyle_def sample_case_def
      BUCKET_BOUND_HOSTNAME_def VIRTUAL_HOSTED_STYLE_def)

text \<open>
  Claim C6, amended. When the style is \<open>BUCKET_BOUND_HOSTNAME\<close> and the
  \<open>bucketBoundHostname\<close> is a non-empty string, the \<open>cname\<close> passed to the engine is
  the scheme, \<open>://\<close> and the hostname as given; with any other style, or without a
  non-empty \<open>bucketBoundHostname\<close>, no \<open>cname\<close> is passed.
\<close>

theorem cname_of_bound_hostname:
  "(urlStyle t = Some BUCKET_BOUND_HOSTNAME \<and> bucketBoundHostname t = Some h \<and> h \<noteq> [] \<longrightarrow>
      cname (snd (signing_call NOW t)) = Some (scheme t @ ''://'' @ h)) \<and>
   (urlStyle t \<noteq> Some BUCKET_BOUND_HOSTNAME \<or> \<not> truthy_string (bucketBoundHostname t) \<longrightarrow>
      cname (snd (signing_call NOW t)) = None)"
  by (auto simp add: signing_call_config urlStyleConfig_def parseUrlStyle_def domain_def
      split: option.splits)

theorem cname_of_bound_hostname_witness:
  "cname (snd (signing_call (Some 1577836800)
     (sample_case\<lparr>urlStyle := Some ''BUCKET_BOUND_HOSTNAME'',
                   bucketBoundHostname := Some ''mydomain.tld''\<rparr>)))
     = Some ''https://mydomain.tld'' \<and>
   cname (snd (signing_call (Some 1577836800) sample_case)) = None"
  using cname_of_bound_hostname [of "sample_case\<lparr>urlStyle := Some ''BUCKET_BOUND_HOSTNAME'',
                   bucketBoundHostname := Some ''mydomain.tld''\<rparr>" "''mydomain.tld''" "Some 1577836800"]
    cname_of_bound_hostname [of sample_case "''mydomain.tld''" "Some 1577836800"]
  by (simp add: sample_case_def BUCKET_BOUND_HOSTNAME_def)

subsection \<open>Verb dispatch\<close>

text \<open>
  Claim C1, as stated, fails: a verb that is not a key of the action table is not
  rejected. For \<open>PATCH\<close> on an object the action is \<open>undefined\<close>, and the configuration
  that carries it is what \<open>getSignedUrl\<close> is called with.
\<close>

theorem unrecognized_verb_counterexample:
  "action (snd (signing_call (Some 1577836800) (sample_case\<lparr>method := ''PATCH''\<rparr>)))
     = Undefined"
  by (simp add: signing_call_action sample_case_def property_def FileAction_def
      objectPrototypeNames_def)

lemma property_FileAction:
  "property FileAction m =
     (if m = ''GET'' then Str ''read'' else if m = ''POST'' then Str ''resumable''
      else if m = ''PUT'' then Str ''write'' else if m = ''DELETE'' then Str ''delete''
      else if m \<in> set objectPrototypeNames then Inherited m else Undefined)"
  by (simp add: property_def FileAction_def)

lemma property_BucketAction:
  "property BucketAction m =
     (if m = ''GET'' then Str ''list''
      else if m \<in> set objectPrototypeNames then Inherited m else Undefined)"
  by (simp add: property_def BucketAction_def)

text \<open>
  Claim C1, amended. With an object, \<open>GET\<close>, \<open>POST\<close>, \<open>PUT\<close> and \<open>DELETE\<close> give
  \<open>read\<close>, \<open>resumable\<close>, \<open>write\<close> and \<open>delete\<close>; without one, \<open>GET\<close> gives \<open>list\<close>.
  Any other verb gives \<open>undefined\<close>, or the member of \<open>Object.prototype\<close> of that name
  when there is one; the harness rejects nothing, and calls the engine with the
  configuration in every case.
\<close>

theorem verb_dispatch:
  "(truthy_string (object t) \<longrightarrow>
      (method t = ''GET'' \<longrightarrow> action (snd (signing_call NOW t)) = Str ''read'') \<and>
      (method t = ''POST'' \<longrightarrow> action (snd (signing_call NOW t)) = Str ''resumable'') \<and>
      (method t = ''PUT'' \<longrightarrow> action (snd (signing_call NOW t)) = Str ''write'') \<and>
      (method t = ''DELETE'' \<longrightarrow> action (snd (signing_call NOW t)) = Str ''delete'') \<and>
      (method t \<notin> {''GET'', ''POST'', ''PUT'', ''DELETE''} \<longrightarrow>
         action (snd (signing_call NOW t)) =
           (if method t \<in> set objectPrototypeNames then Inherited (method t) else Undefined))) \<and>
   (\<not> truthy_string (object t) \<longrightarrow>
      (method t = ''GET'' \<longrightarrow> action (snd (signing_call NOW t)) = Str ''list'') \<and>
      (method t \<noteq> ''GET'' \<longrightarrow>
         action (snd (signing_call NOW t)) =
           (if method t \<in> set objectPrototypeNames then Inherited (method t) else Undefined))) \<and>
   signedUrl getSignedUrl dateValue c t =
     getSignedUrl (dateValue (timestamp t))
       (fst (signing_call (dateValue (timestamp t)) t))
       (snd (signing_call (dateValue (timestamp t)) t))"
  by (simp add: signing_call_action property_FileAction property_BucketAction
      signedUrl_def useFakeTimers_def Let_def split: prod.splits)

theorem verb_dispatch_witness:
  "action (snd (signing_call (Some 1577836800) sample_case)) = Str ''read'' \<and>
   action (snd (signing_call (Some 1577836800) (sample_case\<lparr>method := ''POST''\<rparr>)))
     = Str ''resumable'' \<and>
   action (snd (signing_call (Some 1577836800) (sample_case\<lparr>method := ''PUT''\<rparr>)))
     = Str ''write'' \<and>
   action (snd (signing_call (Some 1577836800) (sample_case\<lparr>method := ''DELETE''\<rparr>)))
     = Str ''delete'' \<and>
   action (snd (signing_call (Some 1577836800) (sample_case\<lparr>method := ''get''\<rparr>)))
     = Undefined \<and>
   action (snd (signing_call (Some 1577836800) (sample_case\<lparr>method := ''toString''\<rparr>)))
     = Inherited ''toString'' \<and>
   action (snd (signing_call (Some 1577836800) (sample_case\<lparr>object := None\<rparr>)))
     = Str ''list'' \<and>
   action (snd (signing_call (Some 1577836800)
                  (sample_case\<lparr>object := None, method := ''POST''\<rparr>))) = Undefined"
  using verb_dispatch [of sample_case "Some 1577836800" "\<lambda>_ _ _. Inr []" "\<lambda>_. None" "\<lparr>date_now = None\<rparr>"]
    verb_dispatch [of "sample_case\<lparr>method := ''POST''\<rparr>" "Some 1577836800" "\<lambda>_ _ _. Inr []" "\<lambda>_. None" "\<lparr>date_now = None\<rparr>"]
    verb_dispatch [of "sample_case\<lparr>method := ''PUT''\<rparr>" "Some 1577836800" "\<lambda>_ _ _. Inr []" "\<lambda>_. None" "\<lparr>date_now = None\<rparr>"]
    verb_dispatch [of "sample_case\<lparr>method := ''DELETE''\<rparr>" "Some 1577836800" "\<lambda>_ _ _. Inr []" "\<lambda>_. None" "\<lparr>date_now = None\<rparr>"]
    verb_dispatch [of "sample_case\<lparr>method := ''get''\<rparr>" "Some 1577836800" "\<lambda>_ _ _. Inr []" "\<lambda>_. None" "\<lparr>date_now = None\<rparr>"]
    verb_dispatch [of "sample_case\<lparr>method := ''toString''\<rparr>" "Some 1577836800" "\<lambda>_ _ _. Inr []" "\<lambda>_. None" "\<lparr>date_now = None\<rparr>"]
    verb_dispatch [of "sample_case\<lparr>object := None\<rparr>" "Some 1577836800" "\<lambda>_ _ _. Inr []" "\<lambda>_. None" "\<lparr>date_now = None\<rparr>"]
    verb_dispatch [of "sample_case\<lparr>object := None, method := ''POST''\<rparr>" "Some 1577836800" "\<lambda>_ _ _. Inr []" "\<lambda>_. None" "\<lparr>date_now = None\<rparr>"]
  by (simp add: sample_case_def objectPrototypeNames_def)

subsection \<open>Comparing the URLs\<close>

text \<open>
  A parsed query has each key once, so comparing two of them as sets of entries is
  comparing them as mappings.
\<close>

lemma addKeyValue_keys:
  "map fst (addKeyValue obj k v) = (if k \<in> fst ` set obj then map fst obj else map fst obj @ [k])"
  by (induction obj k v rule: addKeyValue.induct) auto

lemma addKeyValue_distinct:
  "distinct (map fst obj) \<Longrightarrow> distinct (map fst (addKeyValue obj k v))"
  by (simp add: addKeyValue_keys)

lemma foldl_add_piece_distinct:
  "distinct (map fst obj) \<Longrightarrow> distinct (map fst (foldl add_piece obj ps))"
  by (induction ps arbitrary: obj) (simp_all add: add_piece_def addKeyValue_distinct)

lemma querystring_parse_distinct: "distinct (map fst (querystring_parse qs))"
  by (simp add: querystring_parse_def foldl_add_piece_distinct)

lemma deepStrictEqual_map_of:
  "distinct (map fst a) \<Longrightarrow> distinct (map fst b) \<Longrightarrow>
     deepStrictEqual a b \<longleftrightarrow> map_of a = map_of b"
  by (simp add: deepStrictEqual_def map_of_inject_set)

text \<open>
  Two ill-formed escapes decode to the same replacement character, so the values compare
  equal; a well-formed escape sequence decodes to its bytes.
\<close>

lemma ill_formed_escapes_compare_equal:
  "querystring_parse ''?a=%FE'' = querystring_parse ''?a=%FF'' \<and>
   querystring_parse ''a=%41%2B+b&c=%E2%82%AC''
     = [(''a'', [''A+ b'']), (''c'', [[CHR 0xE2, CHR 0x82, CHR 0xAC]])]"
  by code_simp

text \<open>A URL test passes exactly when the three comparisons, as the code makes them, hold.\<close>

lemma url_assertions_passed:
  "snd (url_assertions actual expected) = Passed \<longleftrightarrow>
     origin actual = origin expected \<and> pathname actual = pathname expected \<and>
     deepStrictEqual (querystring_parse (search actual)) (querystring_parse (search expected))"
  by (simp add: url_assertions_def)

text \<open>
  Claim C3. The harness compares origin with origin, pathname with pathname, and the
  parsed queries with \<open>deepStrictEqual\<close>; the comment on line 168 calls the last an
  order-insensitive comparison of the query parameters. But \<open>querystring.parse\<close> is
  handed \<open>search\<close>, which starts with \<open>?\<close>, and strips nothing: the key of the first
  parameter keeps the \<open>?\<close>. Two URLs with the same origin, the same pathname and the
  same query parameters in a different order, \<open>?b=2&a=1\<close> against \<open>?a=1&b=2\<close>, are
  structurally equal, and the third assertion throws on them.
\<close>

theorem query_comparison_first_key:
  "structurally_equal
     \<lparr>origin = ''https://storage.googleapis.com'', pathname = ''/validation-bucket/test.txt'',
      search = ''?b=2&a=1''\<rparr>
     \<lparr>origin = ''https://storage.googleapis.com'', pathname = ''/validation-bucket/test.txt'',
      search = ''?a=1&b=2''\<rparr> \<and>
   url_assertions
     \<lparr>origin = ''https://storage.googleapis.com'', pathname = ''/validation-bucket/test.txt'',
      search = ''?b=2&a=1''\<rparr>
     \<lparr>origin = ''https://storage.googleapis.com'', pathname = ''/validation-bucket/test.txt'',
      search = ''?a=1&b=2''\<rparr>
     = ([OriginEqual, PathnameEqual, QueryEqual], Threw (AssertionError QueryEqual))"
  by code_simp

subsection \<open>The policy suite\<close>

text \<open>
  Claim C9. For every fixture, the policy suite executes no assertion: it is skipped, so
  each policy case is registered as a pending test and no body runs; and the body is
  empty, so it would assert nothing even if the suite were run.
\<close>

theorem policy_suite_asserts_nothing:
  "assertions_executed (v4_signed_policy testCases) = [] \<and>
   map snd (v4_signed_policy testCases)
     = replicate (length (v4SignedPolicyCases testCases)) Pending \<and>
   map fst (v4_signed_policy testCases) = map description (v4SignedPolicyCases testCases) \<and>
   assertions_executed (describe (policy_tests cases)) = []"
  by (simp add: assertions_executed_def v4_signed_policy_def describe_skip_def describe_def
      policy_tests_def it_def policy_test_body_def comp_def map_replicate_const)

subsection \<open>The clock\<close>


section \<open>Properties of the signing engine as specified\<close>

lemma authQueryParams_names:
  "map fst (authQueryParams P cred addr req) = butlast reservedNames"
  by (simp add: authQueryParams_def reservedNames_def)

lemma auth_names_reserved:
  "k \<in> set (map fst (authQueryParams P cred addr req)) \<Longrightarrow> k \<in> set reservedNames"
  by (simp only: authQueryParams_names) (rule in_set_butlastD)

lemma mergeQueryParams_collision:
  "(k, v) \<in> set extra \<Longrightarrow> k \<in> set reservedNames \<Longrightarrow>
     mergeQueryParams auth extra = Inl QueryParamCollisionError"
  by (force simp add: mergeQueryParams_def list_ex_iff)

lemma mergeQueryParams_disjoint:
  "fst ` set extra \<inter> set reservedNames = {} \<Longrightarrow>
     mergeQueryParams (authQueryParams P cred addr req) extra
       = Inr (authQueryParams P cred addr req @ extra)"
  using auth_names_reserved [of _ P cred addr req]
  by (auto simp add: mergeQueryParams_def list_ex_iff)

lemma mergeQueryParams_Inr:
  "mergeQueryParams auth extra = Inr params \<Longrightarrow>
     params = auth @ extra \<and> fst ` set extra \<inter> set reservedNames = {} \<and>
     fst ` set extra \<inter> fst ` set auth = {}"
  by (auto simp add: mergeQueryParams_def list_ex_iff split: if_splits)

lemma sign_out_of_range:
  "\<not> (0 < expirationSeconds req \<and> expirationSeconds req \<le> 604800) \<Longrightarrow>
     sign P req cred addr = Inl ExpirationRangeError"
  by (auto simp add: sign_def checkExpiration_def)

lemma sign_in_range:
  "0 < expirationSeconds req \<Longrightarrow> expirationSeconds req \<le> 604800 \<Longrightarrow>
     sign P req cred addr =
       (case mergeQueryParams (authQueryParams P cred addr req) (extraQueryParameters req) of
          Inl e \<Rightarrow> Inl e
        | Inr params \<Rightarrow>
            if keyParses P (privateKey cred)
            then Inr (signatureOf P cred addr req params, params)
            else Inl InvalidCredentialError)"
  by (simp add: sign_def checkExpiration_def)

text \<open>
  Claim C2. Whatever the request, the credential, the address and the primitives,
  signing with an expiration of 0 or of 604801 seconds, or with any expiration outside
  \<open>(0, 604800]\<close>, fails with \<open>ExpirationRangeError\<close>: the result does not depend on the
  primitives, none of which is consulted. An expiration of 1 or of 604800 seconds passes
  the check, so signing never fails with \<open>ExpirationRangeError\<close> there, and it succeeds
  when the request passes the other two checks (no caller parameter under a reserved
  name, a private key that parses).
\<close>

theorem expiration_boundary:
  "(\<not> (0 < expirationSeconds req \<and> expirationSeconds req \<le> 604800) \<longrightarrow>
      sign P req cred addr = Inl ExpirationRangeError) \<and>
   sign P (req\<lparr>expirationSeconds := 0\<rparr>) cred addr = Inl ExpirationRangeError \<and>
   sign P (req\<lparr>expirationSeconds := 604801\<rparr>) cred addr = Inl ExpirationRangeError \<and>
   checkExpiration 1 = Inr () \<and> checkExpiration 604800 = Inr () \<and>
   sign P (req\<lparr>expirationSeconds := 1\<rparr>) cred addr \<noteq> Inl ExpirationRangeError \<and>
   sign P (req\<lparr>expirationSeconds := 604800\<rparr>) cred addr \<noteq> Inl ExpirationRangeError \<and>
   ((e = 1 \<or> e = 604800) \<and> fst ` set (extraQueryParameters req) \<inter> set reservedNames = {} \<and>
    keyParses P (privateKey cred) \<longrightarrow>
      sign P (req\<lparr>expirationSeconds := e\<rparr>) cred addr =
        Inr (signatureOf P cred addr (req\<lparr>expirationSeconds := e\<rparr>)
               (authQueryParams P cred addr (req\<lparr>expirationSeconds := e\<rparr>)
                  @ extraQueryParameters req),
             authQueryParams P cred addr (req\<lparr>expirationSeconds := e\<rparr>)
               @ extraQueryParameters req))"
proof -
  have low: "sign P (req\<lparr>expirationSeconds := 0\<rparr>) cred addr = Inl ExpirationRangeError"
    by (simp add: sign_out_of_range)
  have high: "sign P (req\<lparr>expirationSeconds := 604801\<rparr>) cred addr = Inl ExpirationRangeError"
    by (simp add: sign_out_of_range)
  have pass: "sign P (req\<lparr>expirationSeconds := n\<rparr>) cred addr \<noteq> Inl ExpirationRangeError"
    if "n = 1 \<or> n = 604800" for n
    using that
    by (auto simp add: sign_in_range mergeQueryParams_def split: sum.splits if_splits)
  have ok: "sign P (req\<lparr>expirationSeconds := e\<rparr>) cred addr =
        Inr (signatureOf P cred addr (req\<lparr>expirationSeconds := e\<rparr>)
               (authQueryParams P cred addr (req\<lparr>expirationSeconds := e\<rparr>)
                  @ extraQueryParameters req),
             authQueryParams P cred addr (req\<lparr>expirationSeconds := e\<rparr>)
               @ extraQueryParameters req)"
    if "e = 1 \<or> e = 604800"
      and "fst ` set (extraQueryParameters req) \<inter> set reservedNames = {}"
      and "keyParses P (privateKey cred)"
    using that by (auto simp add: sign_in_range mergeQueryParams_disjoint)
  show ?thesis
    using low high pass ok by (simp add: sign_out_of_range checkExpiration_def)
qed

theorem expiration_boundary_witness:
  "sign sample_primitives (sample_request\<lparr>expirationSeconds := 1\<rparr>) sample_credential
       sample_address
     = Inr (''00'',
            authQueryParams sample_primitives sample_credential sample_address
              (sample_request\<lparr>expirationSeconds := 1\<rparr>) @ [(''generation'', ''5'')]) \<and>
   sign sample_primitives (sample_request\<lparr>expirationSeconds := 604800\<rparr>) sample_credential
       sample_address
     = Inr (''00'',
            authQueryParams sample_primitives sample_credential sample_address
              (sample_request\<lparr>expirationSeconds := 604800\<rparr>) @ [(''generation'', ''5'')]) \<and>
   sign sample_primitives (sample_request\<lparr>expirationSeconds := 0\<rparr>) sample_credential
       sample_address
     = Inl ExpirationRangeError \<and>
   sign sample_primitives (sample_request\<lparr>expirationSeconds := 604801\<rparr>) sample_credential
       sample_address
     = Inl ExpirationRangeError"
  using expiration_boundary [of sample_request sample_primitives sample_credential
      sample_address 1]
    expiration_boundary [of sample_request sample_primitives sample_credential
      sample_address 604800]
  by (simp add: sample_request_def sample_primitives_def sample_credential_def
      reservedNames_def)

text \<open>
  Claim C4. The resolver fails with \<open>InvalidAddressingError\<close> when the bound-hostname
  mode comes without a host, and so does the signing operation built on it, whatever the
  rest of the request; every other mode resolves.
\<close>

theorem bound_hostname_needs_host:
  "resolve endpoint r (BoundHostname None) = Inl InvalidAddressingError \<and>
   (addressingMode req = BoundHostname None \<longrightarrow>
      signResource P endpoint cred r req = Inl InvalidAddressingError) \<and>
   (m \<noteq> BoundHostname None \<longrightarrow> (\<exists>a. resolve endpoint r m = Inr a))"
  by (cases m) (auto simp add: resolve_def signResource_def Let_def split: option.splits)

theorem bound_hostname_needs_host_witness:
  "signResource sample_primitives ''storage.googleapis.com'' sample_credential sample_resource
       (sample_request\<lparr>addressingMode := BoundHostname None\<rparr>)
     = Inl InvalidAddressingError \<and>
   (\<exists>a. resolve ''storage.googleapis.com'' sample_resource
           (BoundHostname (Some ''https://mydomain.tld'')) = Inr a)"
  using bound_hostname_needs_host [of "''storage.googleapis.com''" sample_resource
      "sample_request\<lparr>addressingMode := BoundHostname None\<rparr>" sample_primitives
      sample_credential "BoundHostname (Some ''https://mydomain.tld'')"]
  by (simp add: sample_request_def)

text \<open>
  The harness itself raises nothing when the bound-hostname style comes without a
  hostname: \<open>parseUrlStyle\<close> returns no \<open>cname\<close> and no \<open>virtualHostedStyle\<close>, and that
  is the configuration the engine is called with.
\<close>

lemma parseUrlStyle_bound_without_domain:
  "parseUrlStyle (Some BUCKET_BOUND_HOSTNAME) None = \<lparr>cname = None, virtualHostedStyle = None\<rparr>"
  by (simp add: parseUrlStyle_def)

text \<open>
  Claim C8. A caller query parameter under a reserved name, \<open>X-Goog-Signature\<close>
  included, makes the merge of step 1 fail with \<open>QueryParamCollisionError\<close>; signing such
  a request never succeeds, and fails with \<open>QueryParamCollisionError\<close> whenever the
  expiration is in range (out of range, the expiration error comes first). When signing
  succeeds, the parameters are the auth parameters followed by the caller's, no caller
  parameter has a reserved name, and every reserved name maps to what the auth
  parameters give it.
\<close>

theorem collision_rejected:
  "((k, v) \<in> set extra \<and> k \<in> set reservedNames \<longrightarrow>
      mergeQueryParams auth extra = Inl QueryParamCollisionError) \<and>
   ((k, v) \<in> set (extraQueryParameters req) \<and> k \<in> set reservedNames \<longrightarrow>
      (\<forall>out. sign P req cred addr \<noteq> Inr out) \<and>
      (0 < expirationSeconds req \<and> expirationSeconds req \<le> 604800 \<longrightarrow>
         sign P req cred addr = Inl QueryParamCollisionError)) \<and>
   (sign P req cred addr = Inr (sg, params) \<longrightarrow>
      params = authQueryParams P cred addr req @ extraQueryParameters req \<and>
      fst ` set (extraQueryParameters req) \<inter> set reservedNames = {} \<and>
      (\<forall>n. n \<in> set reservedNames \<longrightarrow>
           map_of params n = map_of (authQueryParams P cred addr req) n))"
proof -
  have a: "mergeQueryParams auth extra = Inl QueryParamCollisionError"
    if "(k, v) \<in> set extra" "k \<in> set reservedNames"
    using that by (rule mergeQueryParams_collision)
  have b: "sign P req cred addr = Inl QueryParamCollisionError"
    if "(k, v) \<in> set (extraQueryParameters req)" "k \<in> set reservedNames"
      "0 < expirationSeconds req" "expirationSeconds req \<le> 604800"
    using that by (simp add: sign_in_range mergeQueryParams_collision)
  have c: "sign P req cred addr \<noteq> Inr out"
    if "(k, v) \<in> set (extraQueryParameters req)" "k \<in> set reservedNames" for out
  proof (cases "0 < expirationSeconds req \<and> expirationSeconds req \<le> 604800")
    case True
    with that b show ?thesis by simp
  next
    case False
    then show ?thesis by (simp add: sign_out_of_range)
  qed
  have d: "params = authQueryParams P cred addr req @ extraQueryParameters req \<and>
      fst ` set (extraQueryParameters req) \<inter> set reservedNames = {} \<and>
      (\<forall>n. n \<in> set reservedNames \<longrightarrow>
           map_of params n = map_of (authQueryParams P cred addr req) n)"
    if s: "sign P req cred addr = Inr (sg, params)"
  proof -
    from s have m: "mergeQueryParams (authQueryParams P cred addr req) (extraQueryParameters req)
        = Inr params"
      by (auto simp add: sign_def split: sum.splits if_splits)
    from mergeQueryParams_Inr [OF m]
    have p: "params = authQueryParams P cred addr req @ extraQueryParameters req"
      and dis: "fst ` set (extraQueryParameters req) \<inter> set reservedNames = {}"
      by simp_all
    have "map_of params n = map_of (authQueryParams P cred addr req) n"
      if "n \<in> set reservedNames" for n
    proof -
      from that dis have "n \<notin> fst ` set (extraQueryParameters req)" by blast
      then have "map_of (extraQueryParameters req) n = None"
        by (simp add: map_of_eq_None_iff)
      then show ?thesis by (simp add: p map_add_def split: option.splits)
    qed
    with p dis show ?thesis by simp
  qed
  show ?thesis using a b c d by blast
qed

theorem collision_rejected_witness:
  "sign sample_primitives
       (sample_request\<lparr>extraQueryParameters := [(''X-Goog-Signature'', ''abc'')]\<rparr>)
       sample_credential sample_address
     = Inl QueryParamCollisionError \<and>
   mergeQueryParams [(''X-Goog-Date'', ''20200101T000000Z'')] [(''X-Goog-Signature'', ''abc'')]
     = Inl QueryParamCollisionError \<and>
   sign sample_primitives sample_request sample_credential sample_address
     = Inr (''00'', authQueryParams sample_primitives sample_credential sample_address
                     sample_request @ [(''generation'', ''5'')]) \<and>
   map_of (authQueryParams sample_primitives sample_credential sample_address sample_request
             @ [(''generation'', ''5'')]) ''X-Goog-Algorithm''
     = Some ''GOOG4-HMAC-SHA256''"
  using collision_rejected [of "''X-Goog-Signature''" "''abc''" "[(''X-Goog-Signature'', ''abc'')]"
      "[(''X-Goog-Date'', ''20200101T000000Z'')]"
      "sample_request\<lparr>extraQueryParameters := [(''X-Goog-Signature'', ''abc'')]\<rparr>"
      sample_primitives sample_credential sample_address]
    collision_rejected [of "''X-Goog-Signature''" "''abc''" "[(''X-Goog-Signature'', ''abc'')]"
      "[(''X-Goog-Date'', ''20200101T000000Z'')]" sample_request
      sample_primitives sample_credential sample_address "''00''"
      "authQueryParams sample_primitives sample_credential sample_address sample_request
         @ [(''generation'', ''5'')]"]
  by (simp add: sample_request_def reservedNames_def sample_primitives_def
      sample_credential_def sign_def checkExpiration_def mergeQueryParams_def
      authQueryParams_def)

end
